theory Spec2Isabelle
  imports Main
begin

section \<open>Data model of \<open>src/package.ts\<close>\<close>

text \<open>
  The registry's JSON answer (\<open>interface APIResponse\<close>). Each of the three fields is
  optional; \<open>None\<close> stands for a field that is \<open>undefined\<close>. An object is modelled by the
  list of its own entries in \<open>Object.entries\<close> order, as the index signature
  \<open>{ [version: string]: any }\<close> declares it.
\<close>

record dist =
  shasum :: string
  tarball :: string

datatype APIResponse = APIResponse
  (api_dependencies: "(string \<times> string) list option")
  (api_dist: "dist option")
  (api_versions: "(string \<times> APIResponse) list option")

text \<open>
  Values that the code throws: the members of \<open>enum Errors\<close> and the other thrown
  strings are JavaScript strings, compared by \<open>switch\<close> with strict equality; reading a
  property of \<open>undefined\<close> throws a \<open>TypeError\<close> object; a failing \<open>fs.writeFileSync\<close>
  throws a system error, of which the code (\<open>EISDIR\<close>, \<open>EACCES\<close>, ...) is kept.
\<close>

datatype thrown = Str string | TypeError | SystemError string

text \<open>
  What a property read \<open>object[key]\<close> on an object made by \<open>JSON.parse\<close> gives: the value of
  the object's own entry; otherwise, for the name of a member of \<open>Object.prototype\<close>, that
  inherited member (a function, or the prototype itself for \<open>__proto__\<close>), which has none
  of the fields of \<open>APIResponse\<close>; otherwise \<open>undefined\<close>.
\<close>

datatype js_value = Undefined | Obj APIResponse | ObjectPrototype string

definition object_prototype_keys :: "string list" where
  "object_prototype_keys =
     [''constructor'', ''__defineGetter__'', ''__defineSetter__'', ''hasOwnProperty'',
      ''__lookupGetter__'', ''__lookupSetter__'', ''isPrototypeOf'', ''propertyIsEnumerable'',
      ''toString'', ''valueOf'', ''__proto__'', ''toLocaleString'']"

definition get_property :: "(string \<times> APIResponse) list \<Rightarrow> string \<Rightarrow> js_value" where
  "get_property object key =
     (case map_of object key of
        Some v \<Rightarrow> Obj v
      | None \<Rightarrow> if key \<in> set object_prototype_keys then ObjectPrototype key else Undefined)"

definition js_value_of :: "APIResponse option \<Rightarrow> js_value" where
  "js_value_of r = (case r of None \<Rightarrow> Undefined | Some v \<Rightarrow> Obj v)"

definition NOT_FOUND :: string where "NOT_FOUND = ''not found''"
definition NO_TARBALL :: string where "NO_TARBALL = ''no tarball''"
definition TOO_MANY_FAILURES :: string where "TOO_MANY_FAILURES = ''too many failures''"
definition REGISTRY_ERROR :: string where "REGISTRY_ERROR = ''REGISTRY_ERROR''"

definition MAX_TRIES :: nat where "MAX_TRIES = 10"

text \<open>
  Objects of \<open>class Package\<close> live in a store and are referred to by address, because
  the code shares and mutates them (\<open>dependencies\<close> and \<open>dependents\<close> hold references,
  \<open>includes\<close> compares references).
\<close>

type_synonym addr = nat

record Package =
  dependencies :: "addr list"
  dependents :: "addr list"
  error :: bool
  loading :: bool
  name :: string
  resolved :: bool
  tarballURL :: "string option"
  version :: string

text \<open>
  What \<open>fetch\<close> can do: reject (a transport exception) or resolve to a response.
  \<open>json\<close> is the outcome of \<open>response.json()\<close>: a rejection, a falsy value, or a value
  read through \<open>APIResponse\<close>; \<open>buffer\<close> is the outcome of \<open>response.buffer()\<close>, \<open>None\<close>
  for a rejection. \<open>response.ok\<close> is derived from the status, as the Fetch API defines it.
\<close>

datatype json_result = JsonThrows | JsonFalsy | JsonValue APIResponse

record Response =
  status :: nat
  statusText :: string
  json :: json_result
  buffer :: "string option"

datatype fetch_result = FetchThrows | FetchResponse Response

definition ok :: "Response \<Rightarrow> bool" where
  "ok r = (200 \<le> status r \<and> status r < 300)"

definition ClientErrorNotFound :: nat where "ClientErrorNotFound = 404"

record npa_result =
  npa_name :: string
  npa_fetchSpec :: "string option"

text \<open>
  The program's surroundings, which are not code of this repository, are parameters:
  \<^item> \<open>fetch url n\<close> is the outcome of the request to \<open>url\<close> when \<open>n\<close> requests have been
    made before it (so a registry may answer the same URL differently over time);
  \<^item> \<open>maxSatisfying\<close> is \<open>semver.maxSatisfying\<close>, \<open>None\<close> for \<open>null\<close>;
  \<^item> \<open>npmPackageArg\<close> is \<open>npm-package-arg\<close>, \<open>None\<close> when it throws; the name is the
    string that the code asserts it to be (\<open>name!\<close>);
  \<^item> \<open>path_resolve\<close> is \<open>path.resolve\<close> and \<open>cwd\<close> is \<open>process.cwd()\<close>;
  \<^item> \<open>writeFileSync path data\<close> is the outcome of \<open>fs.writeFileSync\<close>: \<open>None\<close> when the
    file was written, the code of the system error that it throws otherwise.
\<close>

record env =
  fetch :: "string \<Rightarrow> nat \<Rightarrow> fetch_result"
  maxSatisfying :: "string list \<Rightarrow> string \<Rightarrow> string option"
  npmPackageArg :: "string \<Rightarrow> npa_result option"
  path_resolve :: "string \<Rightarrow> string \<Rightarrow> string"
  cwd :: string
  writeFileSync :: "string \<Rightarrow> string \<Rightarrow> string option"

text \<open>
  The mutable state: the store of \<open>Package\<close> objects with the next free address, the two
  static maps \<open>Package.cache\<close> and \<open>Package.apiCache\<close>, the number of \<open>fetch\<close> calls made
  so far, and the files written by \<open>fs.writeFileSync\<close> (path and contents, oldest first).
\<close>

record state =
  heap :: "addr \<Rightarrow> Package"
  next_addr :: addr
  cache :: "string \<rightharpoonup> addr"
  apiCache :: "string \<rightharpoonup> APIResponse"
  requests :: nat
  files :: "(string \<times> string) list"

definition init_state :: state where
  "init_state = \<lparr> heap = (\<lambda>_. \<lparr> dependencies = [], dependents = [], error = False,
       loading = False, name = [], resolved = False, tarballURL = None, version = [] \<rparr>),
     next_addr = 0, cache = Map.empty, apiCache = Map.empty, requests = 0, files = [] \<rparr>"

section \<open>Nodes and the resolution cache\<close>

definition fullNameByNameAndVersion :: "string \<Rightarrow> string \<Rightarrow> string" where
  "fullNameByNameAndVersion n v = n @ ''@'' @ v"

definition isRoot :: "Package \<Rightarrow> bool" where
  "isRoot p = (length (dependents p) = 0)"

definition fullName :: "Package \<Rightarrow> string" where
  "fullName p = fullNameByNameAndVersion (name p) (version p)"

text \<open>The constructor: \<open>version ?? "latest"\<close>, every other field at its initialiser.\<close>

definition new_Package :: "string \<Rightarrow> string option \<Rightarrow> state \<Rightarrow> addr \<times> state" where
  "new_Package n v s =
     (next_addr s,
      s\<lparr> heap := (heap s)(next_addr s :=
             \<lparr> dependencies = [], dependents = [], error = False, loading = False,
               name = n, resolved = False, tarballURL = None,
               version = (case v of None \<Rightarrow> ''latest'' | Some x \<Rightarrow> x) \<rparr>),
         next_addr := Suc (next_addr s) \<rparr>)"

definition fromNameAndVersion :: "string \<Rightarrow> string \<Rightarrow> state \<Rightarrow> addr \<times> state" where
  "fromNameAndVersion n v s =
     (case cache s (fullNameByNameAndVersion n v) of
        Some cachedPkg \<Rightarrow> (cachedPkg, s)
      | None \<Rightarrow>
          (case new_Package n (Some v) s of
             (result, s1) \<Rightarrow>
               (result, s1\<lparr> cache := (cache s1)(fullName (heap s1 result) \<mapsto> result) \<rparr>)))"

definition addDependent :: "addr \<Rightarrow> addr \<Rightarrow> state \<Rightarrow> state" where
  "addDependent this pkg s =
     (if pkg \<notin> set (dependents (heap s this))
      then s\<lparr> heap := (heap s)(this :=
               (heap s this)\<lparr> dependents := dependents (heap s this) @ [pkg] \<rparr>) \<rparr>
      else s)"

definition isEqual :: "(addr \<Rightarrow> Package) \<Rightarrow> addr \<Rightarrow> addr \<Rightarrow> bool" where
  "isEqual h this pkg = (fullName (h pkg) = fullName (h this))"

text \<open>
  \<open>Array.prototype.some\<close> over calls that may not return: it stops at the first call
  that gives \<open>true\<close>, and does not return when a call before that does not.
\<close>

fun some_opt :: "('a \<Rightarrow> bool option) \<Rightarrow> 'a list \<Rightarrow> bool option" where
  "some_opt f [] = Some False"
| "some_opt f (x # xs) =
     (case f x of None \<Rightarrow> None | Some True \<Rightarrow> Some True | Some False \<Rightarrow> some_opt f xs)"

text \<open>
  \<open>isAncestorEqual\<close> recurses through the \<open>dependents\<close> references and need not return
  when they form a cycle. The first argument bounds the depth of the recursion; \<open>None\<close>
  means that the bound was not enough.
\<close>

fun isAncestorEqual :: "nat \<Rightarrow> (addr \<Rightarrow> Package) \<Rightarrow> addr \<Rightarrow> addr \<Rightarrow> bool option" where
  "isAncestorEqual 0 h this pkg = None"
| "isAncestorEqual (Suc fuel) h this pkg =
     (if isEqual h pkg this then Some True
      else if isRoot (h this) then Some False
      else some_opt (\<lambda>dependent. isAncestorEqual fuel h dependent pkg) (dependents (h this)))"

section \<open>The registry client\<close>

definition registry_url :: "string \<Rightarrow> string \<Rightarrow> string" where
  "registry_url n v = ''https://registry.npmjs.org/'' @ n @ ''/'' @ v"

text \<open>
  The \<open>do ... while (++triesCount < Package.MAX_TRIES)\<close> loop of \<open>apiRequest\<close>, entered
  with the current \<open>triesCount\<close>. A \<open>continue\<close> and a caught exception both go to the
  loop condition, which increments the counter; \<open>break\<close> leaves with the counter as it
  is. The result is what was thrown, or \<open>apiResponse\<close> (\<open>None\<close> while unassigned) and
  \<open>triesCount\<close> at the exit.
\<close>

function api_loop ::
  "env \<Rightarrow> string \<Rightarrow> nat \<Rightarrow> state \<Rightarrow> (thrown + APIResponse option \<times> nat) \<times> state" where
  "api_loop E url triesCount s =
     (let s1 = s\<lparr> requests := Suc (requests s) \<rparr> in
      case fetch E url (requests s) of
        FetchResponse response \<Rightarrow>
          if \<not> ok response then
            (if status response = ClientErrorNotFound then (Inl (Str REGISTRY_ERROR), s1)
             else (Inl (Str (statusText response)), s1))
          else
            (case json response of
               JsonValue apiResponse \<Rightarrow> (Inr (Some apiResponse, triesCount), s1)
             | _ \<Rightarrow>
                 if Suc triesCount < MAX_TRIES then api_loop E url (Suc triesCount) s1
                 else (Inr (None, Suc triesCount), s1))
      | FetchThrows \<Rightarrow>
          if Suc triesCount < MAX_TRIES then api_loop E url (Suc triesCount) s1
          else (Inr (None, Suc triesCount), s1))"
  by pat_completeness auto
termination
  by (relation "measure (\<lambda>(E, url, triesCount, s). MAX_TRIES - triesCount)") auto

declare api_loop.simps [simp del]

text \<open>
  \<open>apiRequest\<close>. The request's \<open>version\<close> is optional and tested for truthiness, so the
  empty string counts as absent. For a cached name the result is the property read
  \<open>cachedResponse.versions[version]\<close>, which throws a \<open>TypeError\<close> when \<open>versions\<close> is
  \<open>undefined\<close>. \<open>Package.apiCache.set(name, apiResponse)\<close> with an unassigned
  \<open>apiResponse\<close> would store \<open>undefined\<close>, which \<open>get\<close> and the truthiness test read as
  no entry.
\<close>

definition truthy :: "string option \<Rightarrow> bool" where
  "truthy v = (case v of None \<Rightarrow> False | Some x \<Rightarrow> x \<noteq> [])"

definition string_of :: "string option \<Rightarrow> string" where
  "string_of v = (case v of None \<Rightarrow> [] | Some x \<Rightarrow> x)"

definition apiRequest ::
  "env \<Rightarrow> string \<Rightarrow> string option \<Rightarrow> state \<Rightarrow> (thrown + js_value) \<times> state" where
  "apiRequest E n v s =
     (case apiCache s n of
        Some cachedResponse \<Rightarrow>
          (if truthy v then
             (case api_versions cachedResponse of
                None \<Rightarrow> (Inl TypeError, s)
              | Some versions \<Rightarrow> (Inr (get_property versions (string_of v)), s))
           else (Inr (Obj cachedResponse), s))
      | None \<Rightarrow>
          (let version = (if truthy v then string_of v else []) in
           case api_loop E (registry_url n version) 0 s of
             (Inl e, s1) \<Rightarrow> (Inl e, s1)
           | (Inr (apiResponse, triesCount), s1) \<Rightarrow>
               if triesCount = MAX_TRIES then (Inl (Str TOO_MANY_FAILURES), s1)
               else (Inr (js_value_of apiResponse),
                     if version = [] then s1\<lparr> apiCache := (apiCache s1)(n := apiResponse) \<rparr>
                     else s1)))"

section \<open>The version resolver\<close>

text \<open>
  Modelled from the spec: \<open>semver.coerce\<close> of the external package \<open>semver\<close>, which is not
  under \<open>src/\<close>. The spec describes it as a lenient parse that extracts the first
  version-like token and ignores the other characters. The model follows the
  package's pattern \<open>(^|[^\d])(\d{1,16})(?:\.(\d{1,16}))?(?:\.(\d{1,16}))?(?:$|[^\d])\<close>:
  the leftmost run of at most 16 digits that starts the string or follows a character
  that is not a digit, with up to two more such runs after dots; absent components
  are \<open>0\<close>. The three components must then be strict numeric identifiers (no leading
  zero) that do not exceed \<open>Number.MAX_SAFE_INTEGER\<close>.
\<close>

definition is_digit :: "char \<Rightarrow> bool" where
  "is_digit c = (c \<in> set ''0123456789'')"

definition digit_run :: "string \<Rightarrow> (string \<times> string) option" where
  "digit_run s =
     (let d = takeWhile is_digit s in
      if 1 \<le> length d \<and> length d \<le> 16 then Some (d, dropWhile is_digit s) else None)"

definition dot_digit_run :: "string \<Rightarrow> (string \<times> string) option" where
  "dot_digit_run s =
     (case s of [] \<Rightarrow> None | c # r \<Rightarrow> if c = CHR ''.'' then digit_run r else None)"

definition coerce_at :: "string \<Rightarrow> (string \<times> string option \<times> string option) option" where
  "coerce_at s =
     (case digit_run s of
        None \<Rightarrow> None
      | Some (major, r1) \<Rightarrow>
          (case dot_digit_run r1 of
             None \<Rightarrow> Some (major, None, None)
           | Some (minor, r2) \<Rightarrow>
               (case dot_digit_run r2 of
                  None \<Rightarrow> Some (major, Some minor, None)
                | Some (patch, r3) \<Rightarrow> Some (major, Some minor, Some patch))))"

fun coerce_scan :: "bool \<Rightarrow> string \<Rightarrow> (string \<times> string option \<times> string option) option" where
  "coerce_scan boundary [] = None"
| "coerce_scan boundary (c # cs) =
     (if boundary \<and> is_digit c then
        (case coerce_at (c # cs) of
           Some m \<Rightarrow> Some m
         | None \<Rightarrow> coerce_scan False cs)
      else coerce_scan (\<not> is_digit c) cs)"

definition int_of_digits :: "string \<Rightarrow> int" where
  "int_of_digits d = foldl (\<lambda>n c. 10 * n + (of_char c - 48)) 0 d"

definition MAX_SAFE_INTEGER :: int where "MAX_SAFE_INTEGER = 9007199254740991"

definition numeric_identifier :: "string \<Rightarrow> bool" where
  "numeric_identifier d =
     ((d = ''0'' \<or> (case d of [] \<Rightarrow> False | c # _ \<Rightarrow> c \<noteq> CHR ''0''))
      \<and> int_of_digits d \<le> MAX_SAFE_INTEGER)"

definition coerce :: "string \<Rightarrow> string option" where
  "coerce s =
     (case coerce_scan True s of
        None \<Rightarrow> None
      | Some (major, minor, patch) \<Rightarrow>
          (let mi = (case minor of None \<Rightarrow> ''0'' | Some x \<Rightarrow> x);
               pa = (case patch of None \<Rightarrow> ''0'' | Some x \<Rightarrow> x)
           in if numeric_identifier major \<and> numeric_identifier mi \<and> numeric_identifier pa
              then Some (major @ ''.'' @ mi @ ''.'' @ pa) else None))"

text \<open>
  \<open>fromSemanticVersion\<close>. The \<open>catch\<close> around \<open>apiRequest\<close> rethrows what it caught.
  \<open>Object.keys\<close> of an \<open>undefined\<close> \<open>versions\<close> field throws a \<open>TypeError\<close>, as does
  reading \<open>versions\<close> of \<open>undefined\<close>.
\<close>

definition fromSemanticVersion ::
  "env \<Rightarrow> string \<Rightarrow> string \<Rightarrow> state \<Rightarrow> (thrown + addr) \<times> state" where
  "fromSemanticVersion E n semanticVersion s =
     (if semanticVersion = ''*'' then
        (case fromNameAndVersion n ''latest'' s of (p, s1) \<Rightarrow> (Inr p, s1))
      else if CHR ''<'' \<in> set semanticVersion \<or> CHR ''-'' \<in> set semanticVersion
      then
        (case apiRequest E n None s of
           (Inl e, s1) \<Rightarrow> (Inl e, s1)
         | (Inr Undefined, s1) \<Rightarrow> (Inl TypeError, s1)
         | (Inr (ObjectPrototype key), s1) \<Rightarrow> (Inl TypeError, s1)
         | (Inr (Obj apiResponse), s1) \<Rightarrow>
             (case api_versions apiResponse of
                None \<Rightarrow> (Inl TypeError, s1)
              | Some versions \<Rightarrow>
                  (case fromNameAndVersion n
                          (case maxSatisfying E (map fst versions) semanticVersion of
                             None \<Rightarrow> ''latest'' | Some x \<Rightarrow> x) s1 of
                     (p, s2) \<Rightarrow> (Inr p, s2))))
      else
        (case fromNameAndVersion n
                (case coerce semanticVersion of None \<Rightarrow> ''latest'' | Some x \<Rightarrow> x) s of
           (p, s1) \<Rightarrow> (Inr p, s1)))"

definition fromString :: "env \<Rightarrow> string \<Rightarrow> state \<Rightarrow> addr option \<times> state" where
  "fromString E pacakgeNameInAnyFormat s =
     (case npmPackageArg E pacakgeNameInAnyFormat of
        None \<Rightarrow> (None, s)
      | Some pacakgeArgResult \<Rightarrow>
          (case fromNameAndVersion (npa_name pacakgeArgResult)
                  (case npa_fetchSpec pacakgeArgResult of
                     None \<Rightarrow> ''latest'' | Some x \<Rightarrow> x) s of
             (p, s1) \<Rightarrow> (Some p, s1)))"

fun fillCacheByFullNames :: "env \<Rightarrow> string list \<Rightarrow> state \<Rightarrow> state" where
  "fillCacheByFullNames E [] s = s"
| "fillCacheByFullNames E (full_name # fullNames) s =
     (case fromString E full_name s of
        (None, s1) \<Rightarrow> fillCacheByFullNames E fullNames s1
      | (Some pkg, s1) \<Rightarrow>
          fillCacheByFullNames E fullNames
            (s1\<lparr> heap := (heap s1)(pkg := (heap s1 pkg)\<lparr> resolved := True \<rparr>),
                 cache := (cache s1)(full_name \<mapsto> pkg) \<rparr>))"

section \<open>Expanding a node's dependencies\<close>

definition update_pkg :: "addr \<Rightarrow> (Package \<Rightarrow> Package) \<Rightarrow> state \<Rightarrow> state" where
  "update_pkg this f s = s\<lparr> heap := (heap s)(this := f (heap s this)) \<rparr>"

text \<open>
  The \<open>for (const pkg of Object.entries(...))\<close> loop of \<open>getDependencies\<close>, with the
  \<open>result\<close> array built so far. A failure of \<open>fromSemanticVersion\<close> leaves the loop and
  the function, since the loop is outside the \<open>try\<close>. \<open>None\<close> means that a call of
  \<open>isAncestorEqual\<close> did not return within the bound.
\<close>

fun getDependencies_loop ::
  "env \<Rightarrow> nat \<Rightarrow> addr \<Rightarrow> (string \<times> string) list \<Rightarrow> addr list \<Rightarrow> state \<Rightarrow>
   ((thrown + addr list) \<times> state) option" where
  "getDependencies_loop E fuel this [] result s = Some (Inr result, s)"
| "getDependencies_loop E fuel this ((packageName, packageSemanticVersion) # rest) result s =
     (case fromSemanticVersion E packageName packageSemanticVersion s of
        (Inl e, s1) \<Rightarrow> Some (Inl e, s1)
      | (Inr dependency, s1) \<Rightarrow>
          (case isAncestorEqual fuel (heap s1) this dependency of
             None \<Rightarrow> None
           | Some True \<Rightarrow> getDependencies_loop E fuel this rest result s1
           | Some False \<Rightarrow>
               getDependencies_loop E fuel this rest (result @ [dependency])
                 (addDependent dependency this s1)))"

text \<open>
  \<open>getDependencies\<close>. Only \<open>apiRequest\<close> is inside the \<open>try\<close>; its \<open>catch\<close> returns the
  empty \<open>result\<close> for the thrown value \<open>Errors.REGISTRY_ERROR\<close> and otherwise sets
  \<open>error\<close>, clears \<open>loading\<close> and rethrows. Reading \<open>dist\<close> of an \<open>undefined\<close> response
  throws a \<open>TypeError\<close>. A member inherited from \<open>Object.prototype\<close> has neither \<open>dist\<close>
  nor \<open>dependencies\<close>, so \<open>tarballURL\<close> becomes \<open>undefined\<close> and the empty \<open>result\<close> is
  returned.
\<close>

definition getDependencies ::
  "env \<Rightarrow> nat \<Rightarrow> addr \<Rightarrow> state \<Rightarrow> ((thrown + addr list) \<times> state) option" where
  "getDependencies E fuel this s =
     (let s0 = update_pkg this (\<lambda>p. p\<lparr> loading := True \<rparr>) s in
      case apiRequest E (name (heap s0 this)) (Some (version (heap s0 this))) s0 of
        (Inl e, s1) \<Rightarrow>
          if e = Str REGISTRY_ERROR then Some (Inr [], s1)
          else Some (Inl e, update_pkg this (\<lambda>p. p\<lparr> error := True, loading := False \<rparr>) s1)
      | (Inr Undefined, s1) \<Rightarrow> Some (Inl TypeError, s1)
      | (Inr (ObjectPrototype key), s1) \<Rightarrow>
          Some (Inr [], update_pkg this (\<lambda>p. p\<lparr> tarballURL := None \<rparr>) s1)
      | (Inr (Obj responseBodyAsJSON), s1) \<Rightarrow>
          (let s2 = update_pkg this
                      (\<lambda>p. p\<lparr> tarballURL := map_option tarball (api_dist responseBodyAsJSON) \<rparr>) s1
           in case api_dependencies responseBodyAsJSON of
                None \<Rightarrow> Some (Inr [], s2)
              | Some deps \<Rightarrow>
                  (case getDependencies_loop E fuel this deps [] s2 of
                     None \<Rightarrow> None
                   | Some (Inl e, s3) \<Rightarrow> Some (Inl e, s3)
                   | Some (Inr result, s3) \<Rightarrow>
                       Some (Inr result,
                             update_pkg this (\<lambda>p. p\<lparr> dependencies := result \<rparr>) s3))))"

section \<open>Downloading the archive\<close>

text \<open>
  Modelled from the spec: \<open>path.basename\<close> of Node's \<open>path\<close> module (POSIX flavour), which
  is not under \<open>src/\<close>. The spec calls its result the final path segment of the tarball
  URL: trailing slashes are dropped, and what follows the last remaining slash is
  returned.
\<close>

definition basename :: "string \<Rightarrow> string" where
  "basename p =
     rev (takeWhile (\<lambda>c. c \<noteq> CHR ''/'') (dropWhile (\<lambda>c. c = CHR ''/'') (rev p)))"

definition tgzFileName :: "Package \<Rightarrow> string option" where
  "tgzFileName p =
     (if \<not> truthy (tarballURL p) then None else Some (basename (string_of (tarballURL p))))"

text \<open>
  The \<open>do ... while\<close> loop of \<open>download\<close>: a rejected \<open>fetch\<close> or \<open>buffer()\<close> is caught and
  the loop goes on; a response and a \<open>Buffer\<close> are objects, hence truthy, so neither
  \<open>continue\<close> is taken. The result is \<open>tgzFileData\<close> (\<open>None\<close> while unassigned) and
  \<open>triesCount\<close> at the exit.
\<close>

function download_loop ::
  "env \<Rightarrow> string \<Rightarrow> nat \<Rightarrow> state \<Rightarrow> (string option \<times> nat) \<times> state" where
  "download_loop E url triesCount s =
     (let s1 = s\<lparr> requests := Suc (requests s) \<rparr> in
      case fetch E url (requests s) of
        FetchResponse response \<Rightarrow>
          (case buffer response of
             Some tgzFileData \<Rightarrow> ((Some tgzFileData, triesCount), s1)
           | None \<Rightarrow>
               if Suc triesCount < MAX_TRIES then download_loop E url (Suc triesCount) s1
               else ((None, Suc triesCount), s1))
      | FetchThrows \<Rightarrow>
          if Suc triesCount < MAX_TRIES then download_loop E url (Suc triesCount) s1
          else ((None, Suc triesCount), s1))"
  by pat_completeness auto
termination
  by (relation "measure (\<lambda>(E, url, triesCount, s). MAX_TRIES - triesCount)") auto

declare download_loop.simps [simp del]

definition download_failed :: string where
  "download_failed = ''`downloading ${this} failed`''"

text \<open>
  \<open>download\<close>. The second thrown string is written in the source between double
  quotes, so its back quotes and \<open>${this}\<close> are part of the text. \<open>console.log\<close> is left
  out. Passing an unassigned \<open>tgzFileData\<close> to \<open>writeFileSync\<close> would throw a
  \<open>TypeError\<close>. \<open>writeFileSync\<close> can fail (for instance with \<open>EISDIR\<close>, when the path is
  a directory); its error leaves \<open>download\<close> and no file is recorded.
\<close>

definition download :: "env \<Rightarrow> addr \<Rightarrow> state \<Rightarrow> (thrown + unit) \<times> state" where
  "download E this s =
     (if \<not> truthy (tarballURL (heap s this)) \<or> \<not> truthy (tgzFileName (heap s this))
      then (Inl (Str ''not enough data for download tgz file''), s)
      else
        (case download_loop E (string_of (tarballURL (heap s this))) 0 s of
           ((tgzFileData, triesCount), s1) \<Rightarrow>
             if triesCount = MAX_TRIES then (Inl (Str download_failed), s1)
             else
               (case tgzFileData of
                  None \<Rightarrow> (Inl TypeError, s1)
                | Some d \<Rightarrow>
                    (case writeFileSync E
                            (path_resolve E (cwd E) (string_of (tgzFileName (heap s1 this)))) d of
                       Some code \<Rightarrow> (Inl (SystemError code), s1)
                     | None \<Rightarrow>
                         (Inr (),
                          s1\<lparr> files := files s1 @
                                [(path_resolve E (cwd E)
                                    (string_of (tgzFileName (heap s1 this))), d)] \<rparr>)))))"

section \<open>Concrete registries and nodes\<close>

text \<open>
  Environments and states at which the properties below are evaluated. In \<open>test_env\<close>
  every request is rejected, no range is satisfied and only \<open>left-pad@1.3.0\<close> parses; the
  working directory is \<open>/work\<close>, a single path segment is resolved against it as
  \<open>path.resolve\<close> does, and writing to a directory fails with \<open>EISDIR\<close>.
\<close>

definition test_env :: env where
  "test_env =
     \<lparr> fetch = (\<lambda>url n. FetchThrows),
       maxSatisfying = (\<lambda>versions range. None),
       npmPackageArg =
         (\<lambda>arg. if arg = ''left-pad@1.3.0''
                then Some \<lparr> npa_name = ''left-pad'', npa_fetchSpec = Some ''1.3.0'' \<rparr>
                else None),
       path_resolve =
         (\<lambda>dir file. if file = ''.'' then dir else if file = ''..'' then ''/''
                     else dir @ ''/'' @ file),
       cwd = ''/work'',
       writeFileSync =
         (\<lambda>path data. if path = ''/'' \<or> path = ''/work'' then Some ''EISDIR'' else None) \<rparr>"

definition not_found_page :: Response where
  "not_found_page =
     \<lparr> status = 404, statusText = ''Not Found'', json = JsonValue (APIResponse None None None),
       buffer = Some ''Not found'' \<rparr>"


definition registry_404 :: env where
  "registry_404 = test_env\<lparr> fetch := (\<lambda>url n. FetchResponse not_found_page) \<rparr>"


definition left_pad_node :: state where
  "left_pad_node = snd (fromNameAndVersion ''left-pad'' ''1.3.0'' init_state)"

text \<open>
  An attempt of \<open>apiRequest\<close> that its loop repeats: \<open>fetch\<close> was rejected, or the
  response was a success whose body could not be parsed or was a falsy value.
\<close>

definition failed_attempt :: "fetch_result \<Rightarrow> bool" where
  "failed_attempt r =
     (case r of
        FetchThrows \<Rightarrow> True
      | FetchResponse response \<Rightarrow>
          ok response \<and> (case json response of JsonValue _ \<Rightarrow> False | _ \<Rightarrow> True))"

text \<open>
  A state whose \<open>apiCache\<close> holds the metadata of \<open>left-pad\<close> with one version, and one
  whose cached metadata of \<open>left-pad\<close> has no \<open>versions\<close> field.
\<close>

definition left_pad_1_3_0 :: APIResponse where
  "left_pad_1_3_0 =
     APIResponse (Some [])
       (Some \<lparr> shasum = ''abc'',
               tarball = ''https://registry.npmjs.org/left-pad/-/left-pad-1.3.0.tgz'' \<rparr>) None"

definition cached_left_pad :: state where
  "cached_left_pad =
     init_state\<lparr> apiCache :=
       [''left-pad'' \<mapsto> APIResponse None None (Some [(''1.3.0'', left_pad_1_3_0)])] \<rparr>"

definition cached_without_versions :: state where
  "cached_without_versions =
     init_state\<lparr> apiCache := [''left-pad'' \<mapsto> APIResponse None None None] \<rparr>"

text \<open>
  The fixture of C3: a registry whose metadata for every name lists the versions
  \<open>3.0.0\<close>, \<open>3.9.3\<close> and \<open>4.0.0\<close>, with a \<open>maxSatisfying\<close> that picks \<open>3.9.3\<close> for the
  range \<open>^3.0.0\<close> over these versions.
\<close>

definition plain_version :: APIResponse where
  "plain_version = APIResponse (Some []) None None"

definition fixture_metadata :: APIResponse where
  "fixture_metadata =
     APIResponse None None
       (Some [(''3.0.0'', plain_version), (''3.9.3'', plain_version), (''4.0.0'', plain_version)])"

definition registry_fixture :: env where
  "registry_fixture =
     test_env\<lparr>
       fetch := (\<lambda>url n. FetchResponse
                  \<lparr> status = 200, statusText = ''OK'', json = JsonValue fixture_metadata,
                    buffer = None \<rparr>),
       maxSatisfying := (\<lambda>versions range.
                  if range = ''^3.0.0'' \<and> versions = [''3.0.0'', ''3.9.3'', ''4.0.0'']
                  then Some ''3.9.3'' else None) \<rparr>"

text \<open>
  An attempt of \<open>download\<close> that its loop repeats: \<open>fetch\<close> or \<open>buffer()\<close> was rejected.
\<close>

definition failed_download_attempt :: "fetch_result \<Rightarrow> bool" where
  "failed_download_attempt r =
     (case r of FetchThrows \<Rightarrow> True | FetchResponse response \<Rightarrow> buffer response = None)"

text \<open>The node \<open>left-pad@1.3.0\<close> once its tarball URL is known.\<close>

definition left_pad_tgz :: string where
  "left_pad_tgz = ''https://registry.npmjs.org/left-pad/-/left-pad-1.3.0.tgz''"

definition left_pad_with_tarball :: state where
  "left_pad_with_tarball =
     update_pkg 0 (\<lambda>p. p\<lparr> tarballURL := Some left_pad_tgz \<rparr>) left_pad_node"

text \<open>The same node with a tarball URL whose last segment is \<open>..\<close>.\<close>

definition dotdot_url :: string where
  "dotdot_url = ''https://h/a/..''"

definition left_pad_with_dotdot :: state where
  "left_pad_with_dotdot =
     update_pkg 0 (\<lambda>p. p\<lparr> tarballURL := Some dotdot_url \<rparr>) left_pad_node"

text \<open>
  A registry for two packages that depend on each other: \<open>A@1.0.0\<close> asks for \<open>B\<close> in the
  range \<open>^2.0.0\<close>, and \<open>B@2.0.0\<close> asks for \<open>A\<close> at \<open>1.0.0\<close>.
\<close>

definition metadata_with_dependency :: "string \<Rightarrow> string \<Rightarrow> Response" where
  "metadata_with_dependency n r =
     \<lparr> status = 200, statusText = ''OK'',
       json = JsonValue (APIResponse (Some [(n, r)]) None None), buffer = None \<rparr>"

definition registry_A_B :: env where
  "registry_A_B =
     test_env\<lparr> fetch := (\<lambda>url n.
       if url = registry_url ''A'' ''1.0.0'' then FetchResponse (metadata_with_dependency ''B'' ''^2.0.0'')
       else if url = registry_url ''B'' ''2.0.0'' then FetchResponse (metadata_with_dependency ''A'' ''1.0.0'')
       else FetchResponse not_found_page) \<rparr>"

section \<open>Properties\<close>

text \<open>
  C1. For every name and version and in every state, two calls of
  \<open>fromNameAndVersion\<close> one after the other return the same object (the same address):
  the second call finds the node under its full name in the cache, returns it and
  leaves the state as the first call left it, so no second node is constructed.
\<close>

theorem fromNameAndVersion_twice_identical:
  "(case fromNameAndVersion n v s of
      (p1, s1) \<Rightarrow>
        cache s1 (fullNameByNameAndVersion n v) = Some p1 \<and>
        fromNameAndVersion n v s1 = (p1, s1))"
  by (simp add: fromNameAndVersion_def new_Package_def fullName_def split: option.split)

subsection \<open>The retry loop of \<open>apiRequest\<close>\<close>

lemma api_loop_failed_step:
  assumes "failed_attempt (fetch E url (requests s))"
  shows "api_loop E url triesCount s =
           (if Suc triesCount < MAX_TRIES
            then api_loop E url (Suc triesCount) (s\<lparr> requests := Suc (requests s) \<rparr>)
            else (Inr (None, Suc triesCount), s\<lparr> requests := Suc (requests s) \<rparr>))"
  using assms
  by (subst api_loop.simps)
     (auto simp: failed_attempt_def Let_def split: fetch_result.splits json_result.splits)

lemma api_loop_after_failures:
  assumes "\<forall>i<k. failed_attempt (fetch E url (requests s + i))"
    and "triesCount + k < MAX_TRIES"
  shows "api_loop E url triesCount s =
           api_loop E url (triesCount + k) (s\<lparr> requests := requests s + k \<rparr>)"
  using assms
proof (induction k arbitrary: triesCount s)
  case 0
  then show ?case by simp
next
  case (Suc k)
  have first: "failed_attempt (fetch E url (requests s))"
    using Suc.prems(1) by (metis add.right_neutral zero_less_Suc)
  have rest: "\<forall>i<k. failed_attempt
                 (fetch E url (requests (s\<lparr> requests := Suc (requests s) \<rparr>) + i))"
    using Suc.prems(1) by (metis Suc_less_eq add_Suc_shift select_convs(5) surjective update_convs(5))
  have "api_loop E url triesCount s =
          api_loop E url (Suc triesCount) (s\<lparr> requests := Suc (requests s) \<rparr>)"
    using api_loop_failed_step [OF first] Suc.prems(2) by simp
  also have "\<dots> = api_loop E url (Suc triesCount + k)
                      (s\<lparr> requests := Suc (requests s) \<rparr>\<lparr> requests := Suc (requests s) + k \<rparr>)"
    using Suc.IH [OF rest, of "Suc triesCount"] Suc.prems(2) by simp
  finally show ?case by simp
qed

lemma api_loop_exhausted:
  assumes "\<forall>i<MAX_TRIES. failed_attempt (fetch E url (requests s + i))"
  shows "api_loop E url 0 s = (Inr (None, MAX_TRIES), s\<lparr> requests := requests s + MAX_TRIES \<rparr>)"
proof -
  have a: "\<forall>i<9. failed_attempt (fetch E url (requests s + i))"
    using assms by (simp add: MAX_TRIES_def)
  have b: "failed_attempt (fetch E url (requests (s\<lparr> requests := requests s + 9 \<rparr>)))"
    using assms by (simp add: MAX_TRIES_def)
  have "api_loop E url 0 s = api_loop E url (0 + 9) (s\<lparr> requests := requests s + 9 \<rparr>)"
    by (rule api_loop_after_failures [OF a]) (simp add: MAX_TRIES_def)
  also have "\<dots> = (Inr (None, MAX_TRIES), s\<lparr> requests := requests s + MAX_TRIES \<rparr>)"
    using api_loop_failed_step [OF b, of 9] by (simp add: MAX_TRIES_def)
  finally show ?thesis .
qed

lemma api_loop_not_ok:
  assumes "fetch E url (requests s) = FetchResponse response" and "\<not> ok response"
  shows "api_loop E url triesCount s =
           (Inl (Str (if status response = ClientErrorNotFound then REGISTRY_ERROR
                      else statusText response)),
            s\<lparr> requests := Suc (requests s) \<rparr>)"
  using assms by (subst api_loop.simps) (simp add: Let_def)

lemma api_loop_success:
  assumes "fetch E url (requests s) = FetchResponse response" and "ok response"
    and "json response = JsonValue apiResponse"
  shows "api_loop E url triesCount s =
           (Inr (Some apiResponse, triesCount), s\<lparr> requests := Suc (requests s) \<rparr>)"
  using assms by (subst api_loop.simps) (simp add: Let_def)

lemma apiRequest_uncached:
  assumes "apiCache s n = None"
  shows "apiRequest E n (Some v) s =
           (case api_loop E (registry_url n v) 0 s of
              (Inl e, s1) \<Rightarrow> (Inl e, s1)
            | (Inr (apiResponse, triesCount), s1) \<Rightarrow>
                if triesCount = MAX_TRIES then (Inl (Str TOO_MANY_FAILURES), s1)
                else (Inr (js_value_of apiResponse),
                      if v = [] then s1\<lparr> apiCache := (apiCache s1)(n := apiResponse) \<rparr>
                      else s1))"
  using assms by (cases "v = []") (auto simp: apiRequest_def truthy_def string_of_def)

text \<open>
  C5. When the registry answers the node's metadata request with HTTP 404 (after any
  number of repeated attempts below the limit), \<open>getDependencies\<close> returns the empty
  list and throws nothing; the node's \<open>error\<close> flag is what it was before (so it stays
  \<open>false\<close>), and the only changes are \<open>loading = true\<close> and the requests made.
\<close>

theorem getDependencies_absorbs_404:
  assumes "apiCache s (name (heap s this)) = None"
    and "k < MAX_TRIES"
    and "\<forall>i<k. failed_attempt
           (fetch E (registry_url (name (heap s this)) (version (heap s this))) (requests s + i))"
    and "fetch E (registry_url (name (heap s this)) (version (heap s this))) (requests s + k)
           = FetchResponse response"
    and "status response = ClientErrorNotFound"
  shows "getDependencies E fuel this s =
           Some (Inr [], update_pkg this (\<lambda>p. p\<lparr> loading := True \<rparr>) s
                           \<lparr> requests := requests s + Suc k \<rparr>)
         \<and> error (heap (update_pkg this (\<lambda>p. p\<lparr> loading := True \<rparr>) s
                           \<lparr> requests := requests s + Suc k \<rparr>) this) = error (heap s this)"
proof -
  let ?s0 = "update_pkg this (\<lambda>p. p\<lparr> loading := True \<rparr>) s"
  let ?url = "registry_url (name (heap s this)) (version (heap s this))"
  have nm: "name (heap ?s0 this) = name (heap s this)"
    and vs: "version (heap ?s0 this) = version (heap s this)"
    and rq: "requests ?s0 = requests s"
    and ac: "apiCache ?s0 = apiCache s"
    by (simp_all add: update_pkg_def)
  have fails: "\<forall>i<k. failed_attempt (fetch E ?url (requests ?s0 + i))"
    using assms(3) rq by simp
  have notok: "\<not> ok response"
    using assms(5) by (simp add: ok_def ClientErrorNotFound_def)
  have last: "fetch E ?url (requests (?s0\<lparr> requests := requests ?s0 + k \<rparr>)) = FetchResponse response"
    using assms(4) rq by simp
  have "api_loop E ?url 0 ?s0 = api_loop E ?url (0 + k) (?s0\<lparr> requests := requests ?s0 + k \<rparr>)"
    using api_loop_after_failures [OF fails, of 0] assms(2) by simp
  also have "\<dots> = (Inl (Str REGISTRY_ERROR), ?s0\<lparr> requests := requests s + Suc k \<rparr>)"
    using api_loop_not_ok [OF last notok, of "0 + k"] assms(5) rq by simp
  finally have loop: "api_loop E ?url 0 ?s0 =
      (Inl (Str REGISTRY_ERROR), ?s0\<lparr> requests := requests s + Suc k \<rparr>)" .
  have "apiRequest E (name (heap s this)) (Some (version (heap s this))) ?s0 =
          (Inl (Str REGISTRY_ERROR), ?s0\<lparr> requests := requests s + Suc k \<rparr>)"
    using assms(1) ac by (simp add: apiRequest_uncached loop)
  then have "getDependencies E fuel this s =
               Some (Inr [], ?s0\<lparr> requests := requests s + Suc k \<rparr>)"
    by (simp add: getDependencies_def Let_def nm vs)
  moreover have "error (heap (?s0\<lparr> requests := requests s + Suc k \<rparr>) this) = error (heap s this)"
    by (simp add: update_pkg_def)
  ultimately show ?thesis by simp
qed

theorem getDependencies_absorbs_404_witness:
  "getDependencies registry_404 1 0 left_pad_node =
     Some (Inr [], update_pkg 0 (\<lambda>p. p\<lparr> loading := True \<rparr>) left_pad_node\<lparr> requests := 1 \<rparr>)
   \<and> \<not> error (heap (update_pkg 0 (\<lambda>p. p\<lparr> loading := True \<rparr>) left_pad_node
                       \<lparr> requests := 1 \<rparr>) 0)"
  using getDependencies_absorbs_404 [of left_pad_node 0 0 registry_404 not_found_page 1]
  by (simp add: left_pad_node_def fromNameAndVersion_def new_Package_def init_state_def
      registry_404_def test_env_def not_found_page_def ClientErrorNotFound_def MAX_TRIES_def
      fullName_def fullNameByNameAndVersion_def)




text \<open>
  C10, as stated, fails: the unguarded read \<open>cachedResponse.versions[version]\<close> does not
  always give \<open>undefined\<close> for a version that is not a key of the cached object, and it
  can throw. For the version \<open>constructor\<close> it gives the member that every object
  inherits from \<open>Object.prototype\<close>; for a cached response without \<open>versions\<close> it throws a
  \<open>TypeError\<close>.
\<close>

theorem apiRequest_cached_lookup_not_undefined:
  "apiRequest registry_404 ''left-pad'' (Some ''constructor'') cached_left_pad =
     (Inr (ObjectPrototype ''constructor''), cached_left_pad)
   \<and> fst (apiRequest registry_404 ''left-pad'' (Some ''constructor'') cached_left_pad)
       \<noteq> Inr Undefined
   \<and> apiRequest registry_404 ''left-pad'' (Some ''1.3.0'') cached_without_versions =
     (Inl TypeError, cached_without_versions)"
  by (simp add: apiRequest_def truthy_def string_of_def get_property_def
      object_prototype_keys_def cached_left_pad_def cached_without_versions_def init_state_def)

text \<open>
  C10, amended. A request with a non-empty version for a name that \<open>apiCache\<close> holds makes
  no request and leaves the state as it is; its result is that of the unguarded property
  read \<open>cachedResponse.versions[version]\<close>. When the cached response has a \<open>versions\<close>
  object, nothing is thrown: the result is the entry for a version that is a key;
  \<open>undefined\<close> for a version that is neither a key nor the name of a member of
  \<open>Object.prototype\<close>; and the inherited member for such a name. When the cached response
  has no \<open>versions\<close> object, the read throws a \<open>TypeError\<close>.
\<close>

theorem apiRequest_cached_version_lookup:
  assumes "apiCache s n = Some cachedResponse"
    and "v \<noteq> []"
  shows "(api_versions cachedResponse = None \<longrightarrow>
            apiRequest E n (Some v) s = (Inl TypeError, s))
       \<and> (\<forall>versions. api_versions cachedResponse = Some versions \<longrightarrow>
            apiRequest E n (Some v) s = (Inr (get_property versions v), s)
            \<and> (\<forall>entry. map_of versions v = Some entry \<longrightarrow>
                  apiRequest E n (Some v) s = (Inr (Obj entry), s))
            \<and> (v \<notin> fst ` set versions \<and> v \<notin> set object_prototype_keys \<longrightarrow>
                  apiRequest E n (Some v) s = (Inr Undefined, s))
            \<and> (v \<notin> fst ` set versions \<and> v \<in> set object_prototype_keys \<longrightarrow>
                  apiRequest E n (Some v) s = (Inr (ObjectPrototype v), s)))"
  using assms
  by (auto simp: apiRequest_def truthy_def string_of_def get_property_def
      dom_map_of_conv_image_fst [symmetric] domIff split: option.splits)

theorem apiRequest_cached_version_lookup_witness:
  "apiRequest registry_404 ''left-pad'' (Some ''9.9.9'') cached_left_pad =
     (Inr Undefined, cached_left_pad)
   \<and> apiRequest registry_404 ''left-pad'' (Some ''1.3.0'') cached_left_pad =
     (Inr (Obj left_pad_1_3_0), cached_left_pad)
   \<and> apiRequest registry_404 ''left-pad'' (Some ''toString'') cached_left_pad =
     (Inr (ObjectPrototype ''toString''), cached_left_pad)
   \<and> apiRequest registry_404 ''left-pad'' (Some ''9.9.9'') cached_without_versions =
     (Inl TypeError, cached_without_versions)"
proof -
  have c: "apiCache cached_left_pad ''left-pad'' =
             Some (APIResponse None None (Some [(''1.3.0'', left_pad_1_3_0)]))"
    by (simp add: cached_left_pad_def init_state_def)
  have w: "apiCache cached_without_versions ''left-pad'' = Some (APIResponse None None None)"
    by (simp add: cached_without_versions_def init_state_def)
  have "apiRequest registry_404 ''left-pad'' (Some ''9.9.9'') cached_left_pad =
          (Inr Undefined, cached_left_pad)"
    using apiRequest_cached_version_lookup [OF c, of "''9.9.9''" registry_404]
    by (simp add: object_prototype_keys_def get_property_def)
  moreover have "apiRequest registry_404 ''left-pad'' (Some ''1.3.0'') cached_left_pad =
          (Inr (Obj left_pad_1_3_0), cached_left_pad)"
    using apiRequest_cached_version_lookup [OF c, of "''1.3.0''" registry_404]
    by (simp add: get_property_def)
  moreover have "apiRequest registry_404 ''left-pad'' (Some ''toString'') cached_left_pad =
          (Inr (ObjectPrototype ''toString''), cached_left_pad)"
    using apiRequest_cached_version_lookup [OF c, of "''toString''" registry_404]
    by (simp add: object_prototype_keys_def get_property_def)
  moreover have "apiRequest registry_404 ''left-pad'' (Some ''9.9.9'') cached_without_versions =
          (Inl TypeError, cached_without_versions)"
    using apiRequest_cached_version_lookup [OF w, of "''9.9.9''" registry_404]
    by simp
  ultimately show ?thesis by blast
qed

subsection \<open>The version resolver\<close>

lemma apiRequest_unscoped_uncached:
  assumes "apiCache s n = None"
  shows "apiRequest E n None s =
           (case api_loop E (registry_url n []) 0 s of
              (Inl e, s1) \<Rightarrow> (Inl e, s1)
            | (Inr (apiResponse, triesCount), s1) \<Rightarrow>
                if triesCount = MAX_TRIES then (Inl (Str TOO_MANY_FAILURES), s1)
                else (Inr (js_value_of apiResponse),
                      s1\<lparr> apiCache := (apiCache s1)(n := apiResponse) \<rparr>))"
  using assms by (auto simp: apiRequest_def truthy_def split: prod.split sum.split)

lemma fromNameAndVersion_requests:
  "requests (snd (fromNameAndVersion n v s)) = requests s"
  by (simp add: fromNameAndVersion_def new_Package_def split: option.split)

lemma fromNameAndVersion_fresh:
  assumes "cache s (fullNameByNameAndVersion n v) = None"
  shows "name (heap (snd (fromNameAndVersion n v s)) (fst (fromNameAndVersion n v s))) = n
       \<and> version (heap (snd (fromNameAndVersion n v s)) (fst (fromNameAndVersion n v s))) = v"
  using assms by (simp add: fromNameAndVersion_def new_Package_def)

lemma coerce_caret_3: "coerce ''^3.0.0'' = Some ''3.0.0''"
  by code_simp

text \<open>
  C3, as stated, fails: with the fixture that publishes \<open>3.0.0\<close>, \<open>3.9.3\<close> and \<open>4.0.0\<close>,
  resolving \<open>^3.0.0\<close> gives a node of version \<open>3.0.0\<close>, not \<open>3.9.3\<close>, and no request is
  made.
\<close>

theorem fromSemanticVersion_caret_not_max_satisfying:
  "fst (fromSemanticVersion registry_fixture ''fixture'' ''^3.0.0'' init_state) = Inr 0
   \<and> version (heap (snd (fromSemanticVersion registry_fixture ''fixture'' ''^3.0.0'' init_state)) 0)
       = ''3.0.0''
   \<and> version (heap (snd (fromSemanticVersion registry_fixture ''fixture'' ''^3.0.0'' init_state)) 0)
       \<noteq> ''3.9.3''
   \<and> requests (snd (fromSemanticVersion registry_fixture ''fixture'' ''^3.0.0'' init_state)) = 0"
  by (simp add: fromSemanticVersion_def coerce_caret_3 fromNameAndVersion_def
      new_Package_def init_state_def fullName_def fullNameByNameAndVersion_def)

text \<open>
  C3, amended. The specifier \<open>^3.0.0\<close> contains neither \<open><\<close> nor \<open>-\<close>, so
  \<open>fromSemanticVersion\<close> coerces it: for every registry, library and state it returns
  the node of \<open>fromNameAndVersion\<close> for the version \<open>3.0.0\<close> and makes no request; when
  that full name is not yet cached, the node is new and has this name and version.
\<close>

theorem fromSemanticVersion_caret_coerced:
  "fromSemanticVersion E n ''^3.0.0'' s =
     (case fromNameAndVersion n ''3.0.0'' s of (p, s1) \<Rightarrow> (Inr p, s1))
   \<and> requests (snd (fromSemanticVersion E n ''^3.0.0'' s)) = requests s
   \<and> (cache s (fullNameByNameAndVersion n ''3.0.0'') = None \<longrightarrow>
        (\<exists>p s1. fromSemanticVersion E n ''^3.0.0'' s = (Inr p, s1)
                \<and> name (heap s1 p) = n \<and> version (heap s1 p) = ''3.0.0''))"
proof -
  have eq: "fromSemanticVersion E n ''^3.0.0'' s =
          (case fromNameAndVersion n ''3.0.0'' s of (p, s1) \<Rightarrow> (Inr p, s1))"
    by (simp add: fromSemanticVersion_def coerce_caret_3)
  have rq: "requests (snd (fromSemanticVersion E n ''^3.0.0'' s)) = requests s"
    using fromNameAndVersion_requests [of n "''3.0.0''" s]
    by (simp add: eq split_beta)
  have fresh: "cache s (fullNameByNameAndVersion n ''3.0.0'') = None \<longrightarrow>
        (\<exists>p s1. fromSemanticVersion E n ''^3.0.0'' s = (Inr p, s1)
                \<and> name (heap s1 p) = n \<and> version (heap s1 p) = ''3.0.0'')"
    using fromNameAndVersion_fresh [of s n "''3.0.0''"]
    by (simp add: eq split_beta)
  show ?thesis using eq rq fresh by blast
qed

theorem fromSemanticVersion_caret_coerced_witness:
  "\<exists>p s1. fromSemanticVersion registry_fixture ''fixture'' ''^3.0.0'' init_state = (Inr p, s1)
          \<and> name (heap s1 p) = ''fixture'' \<and> version (heap s1 p) = ''3.0.0''"
proof -
  have "cache init_state (fullNameByNameAndVersion ''fixture'' ''3.0.0'') = None"
    by (simp add: init_state_def)
  then show ?thesis
    using fromSemanticVersion_caret_coerced [of registry_fixture "''fixture''" init_state]
    by blast
qed

text \<open>
  C6, as stated, fails: for the specifier \<open><2.0.0\<close> and a registry that answers 404,
  \<open>fromSemanticVersion\<close> throws \<open>Errors.REGISTRY_ERROR\<close> and returns no version.
\<close>

theorem fromSemanticVersion_rethrows_404:
  "fromSemanticVersion registry_404 ''left-pad'' ''<2.0.0'' init_state =
     (Inl (Str REGISTRY_ERROR), init_state\<lparr> requests := 1 \<rparr>)"
  by (simp add: fromSemanticVersion_def apiRequest_unscoped_uncached init_state_def
      api_loop_not_ok [of _ _ _ not_found_page]
      registry_404_def test_env_def not_found_page_def ok_def ClientErrorNotFound_def)

text \<open>
  C6, amended. \<open>fromSemanticVersion\<close> does not fail and makes no request when the
  specifier is \<open>*\<close> (version \<open>latest\<close>) or contains neither \<open><\<close> nor \<open>-\<close> (the coerced
  version, or \<open>latest\<close> when the specifier cannot be coerced). For any other specifier
  it asks for the unscoped metadata and rethrows every failure of that request, for
  instance \<open>Errors.TOO_MANY_FAILURES\<close> after ten failed attempts; when the request
  succeeds with a \<open>versions\<close> object, the version is the one \<open>maxSatisfying\<close> selects, or
  \<open>latest\<close> when it selects none.
\<close>

theorem fromSemanticVersion_failure_cases:
  "(semanticVersion = ''*'' \<longrightarrow>
      fromSemanticVersion E n semanticVersion s =
        (case fromNameAndVersion n ''latest'' s of (p, s1) \<Rightarrow> (Inr p, s1))
      \<and> requests (snd (fromSemanticVersion E n semanticVersion s)) = requests s)
   \<and> (semanticVersion \<noteq> ''*'' \<and> CHR ''<'' \<notin> set semanticVersion
        \<and> CHR ''-'' \<notin> set semanticVersion \<longrightarrow>
      fromSemanticVersion E n semanticVersion s =
        (case fromNameAndVersion n
                (case coerce semanticVersion of None \<Rightarrow> ''latest'' | Some x \<Rightarrow> x) s of
           (p, s1) \<Rightarrow> (Inr p, s1))
      \<and> requests (snd (fromSemanticVersion E n semanticVersion s)) = requests s)
   \<and> (semanticVersion \<noteq> ''*''
        \<and> (CHR ''<'' \<in> set semanticVersion \<or> CHR ''-'' \<in> set semanticVersion) \<longrightarrow>
      (\<forall>e s1. apiRequest E n None s = (Inl e, s1) \<longrightarrow>
          fromSemanticVersion E n semanticVersion s = (Inl e, s1))
      \<and> (\<forall>apiResponse versions s1.
            apiRequest E n None s = (Inr (Obj apiResponse), s1)
            \<and> api_versions apiResponse = Some versions \<longrightarrow>
            fromSemanticVersion E n semanticVersion s =
              (case fromNameAndVersion n
                      (case maxSatisfying E (map fst versions) semanticVersion of
                         None \<Rightarrow> ''latest'' | Some x \<Rightarrow> x) s1 of
                 (p, s2) \<Rightarrow> (Inr p, s2)))
      \<and> (apiCache s n = None
           \<and> (\<forall>i<MAX_TRIES. failed_attempt (fetch E (registry_url n []) (requests s + i))) \<longrightarrow>
          fromSemanticVersion E n semanticVersion s =
            (Inl (Str TOO_MANY_FAILURES), s\<lparr> requests := requests s + MAX_TRIES \<rparr>)))"
proof (intro conjI impI allI)
  assume "semanticVersion = ''*''"
  then show "fromSemanticVersion E n semanticVersion s =
        (case fromNameAndVersion n ''latest'' s of (p, s1) \<Rightarrow> (Inr p, s1))"
    by (simp add: fromSemanticVersion_def)
  then show "requests (snd (fromSemanticVersion E n semanticVersion s)) = requests s"
    using fromNameAndVersion_requests [of n "''latest''" s] by (simp add: split_beta)
next
  assume a: "semanticVersion \<noteq> ''*'' \<and> CHR ''<'' \<notin> set semanticVersion
        \<and> CHR ''-'' \<notin> set semanticVersion"
  then show "fromSemanticVersion E n semanticVersion s =
        (case fromNameAndVersion n
                (case coerce semanticVersion of None \<Rightarrow> ''latest'' | Some x \<Rightarrow> x) s of
           (p, s1) \<Rightarrow> (Inr p, s1))"
    by (simp add: fromSemanticVersion_def)
  then show "requests (snd (fromSemanticVersion E n semanticVersion s)) = requests s"
    using fromNameAndVersion_requests
      [of n "case coerce semanticVersion of None \<Rightarrow> ''latest'' | Some x \<Rightarrow> x" s]
    by (simp add: split_beta)
next
  fix e s1
  assume "semanticVersion \<noteq> ''*''
        \<and> (CHR ''<'' \<in> set semanticVersion \<or> CHR ''-'' \<in> set semanticVersion)"
    and "apiRequest E n None s = (Inl e, s1)"
  then show "fromSemanticVersion E n semanticVersion s = (Inl e, s1)"
    by (simp add: fromSemanticVersion_def)
next
  fix apiResponse versions s1
  assume "semanticVersion \<noteq> ''*''
        \<and> (CHR ''<'' \<in> set semanticVersion \<or> CHR ''-'' \<in> set semanticVersion)"
    and "apiRequest E n None s = (Inr (Obj apiResponse), s1)
            \<and> api_versions apiResponse = Some versions"
  then show "fromSemanticVersion E n semanticVersion s =
              (case fromNameAndVersion n
                      (case maxSatisfying E (map fst versions) semanticVersion of
                         None \<Rightarrow> ''latest'' | Some x \<Rightarrow> x) s1 of
                 (p, s2) \<Rightarrow> (Inr p, s2))"
    by (simp add: fromSemanticVersion_def)
next
  assume a: "semanticVersion \<noteq> ''*''
        \<and> (CHR ''<'' \<in> set semanticVersion \<or> CHR ''-'' \<in> set semanticVersion)"
    and b: "apiCache s n = None
           \<and> (\<forall>i<MAX_TRIES. failed_attempt (fetch E (registry_url n []) (requests s + i)))"
  from b have "apiRequest E n None s =
                 (Inl (Str TOO_MANY_FAILURES), s\<lparr> requests := requests s + MAX_TRIES \<rparr>)"
    by (simp add: apiRequest_unscoped_uncached api_loop_exhausted)
  with a show "fromSemanticVersion E n semanticVersion s =
            (Inl (Str TOO_MANY_FAILURES), s\<lparr> requests := requests s + MAX_TRIES \<rparr>)"
    by (simp add: fromSemanticVersion_def)
qed

theorem fromSemanticVersion_failure_cases_witness:
  "fromSemanticVersion test_env ''left-pad'' ''<2.0.0'' init_state =
     (Inl (Str TOO_MANY_FAILURES), init_state\<lparr> requests := 10 \<rparr>)
   \<and> fst (fromSemanticVersion test_env ''left-pad'' ''*'' init_state) = Inr 0
   \<and> version (heap (snd (fromSemanticVersion test_env ''left-pad'' ''*'' init_state)) 0) = ''latest''
   \<and> fst (fromSemanticVersion test_env ''left-pad'' ''~1.2'' init_state) = Inr 0
   \<and> version (heap (snd (fromSemanticVersion test_env ''left-pad'' ''~1.2'' init_state)) 0) = ''1.2.0''"
proof -
  have c: "coerce ''~1.2'' = Some ''1.2.0''" by code_simp
  have f: "\<forall>i<MAX_TRIES. failed_attempt
             (fetch test_env (registry_url ''left-pad'' []) (requests init_state + i))"
    by (simp add: test_env_def failed_attempt_def)
  have a: "apiCache init_state ''left-pad'' = None"
    by (simp add: init_state_def)
  have "fromSemanticVersion test_env ''left-pad'' ''<2.0.0'' init_state =
     (Inl (Str TOO_MANY_FAILURES), init_state\<lparr> requests := 10 \<rparr>)"
    using fromSemanticVersion_failure_cases [of "''<2.0.0''" test_env "''left-pad''" init_state] a f
    by (simp add: MAX_TRIES_def init_state_def)
  moreover have "fst (fromSemanticVersion test_env ''left-pad'' ''*'' init_state) = Inr 0
     \<and> version (heap (snd (fromSemanticVersion test_env ''left-pad'' ''*'' init_state)) 0) = ''latest''"
    using fromSemanticVersion_failure_cases [of "''*''" test_env "''left-pad''" init_state]
    by (simp add: fromNameAndVersion_def new_Package_def init_state_def)
  moreover have "fst (fromSemanticVersion test_env ''left-pad'' ''~1.2'' init_state) = Inr 0
     \<and> version (heap (snd (fromSemanticVersion test_env ''left-pad'' ''~1.2'' init_state)) 0) = ''1.2.0''"
    using fromSemanticVersion_failure_cases [of "''~1.2''" test_env "''left-pad''" init_state]
    by (simp add: c fromNameAndVersion_def new_Package_def init_state_def)
  ultimately show ?thesis by blast
qed

subsection \<open>Seeding the cache\<close>

text \<open>
  C7. Provided \<open>npm-package-arg\<close> parses \<open>left-pad@1.3.0\<close> into the name \<open>left-pad\<close> and the
  fetch spec \<open>1.3.0\<close>: in every state, after \<open>fillCacheByFullNames(["left-pad@1.3.0"])\<close>
  the call \<open>fromString("left-pad@1.3.0")\<close> returns the node of that name and version,
  which has \<open>resolved = true\<close>; the resolution leaves the seeded state as it is, and the
  number of requests made is the one before the seeding, so neither step fetches.
\<close>

theorem fillCache_then_fromString_resolved:
  assumes "npmPackageArg E ''left-pad@1.3.0'' =
             Some \<lparr> npa_name = ''left-pad'', npa_fetchSpec = Some ''1.3.0'' \<rparr>"
  shows "fromString E ''left-pad@1.3.0'' (fillCacheByFullNames E [''left-pad@1.3.0''] s) =
           (Some (fst (fromNameAndVersion ''left-pad'' ''1.3.0'' s)),
            fillCacheByFullNames E [''left-pad@1.3.0''] s)
       \<and> resolved (heap (fillCacheByFullNames E [''left-pad@1.3.0''] s)
                    (fst (fromNameAndVersion ''left-pad'' ''1.3.0'' s)))
       \<and> requests (fillCacheByFullNames E [''left-pad@1.3.0''] s) = requests s"
  using assms
  by (simp add: fromString_def fromNameAndVersion_def new_Package_def fullName_def
      fullNameByNameAndVersion_def split: option.split)

theorem fillCache_then_fromString_resolved_witness:
  "fromString test_env ''left-pad@1.3.0''
     (fillCacheByFullNames test_env [''left-pad@1.3.0''] init_state) =
       (Some 0, fillCacheByFullNames test_env [''left-pad@1.3.0''] init_state)
   \<and> resolved (heap (fillCacheByFullNames test_env [''left-pad@1.3.0''] init_state) 0)
   \<and> requests (fillCacheByFullNames test_env [''left-pad@1.3.0''] init_state) = 0"
proof -
  have a: "npmPackageArg test_env ''left-pad@1.3.0'' =
             Some \<lparr> npa_name = ''left-pad'', npa_fetchSpec = Some ''1.3.0'' \<rparr>"
    by (simp add: test_env_def)
  have b: "requests init_state = 0"
    and c: "fst (fromNameAndVersion ''left-pad'' ''1.3.0'' init_state) = 0"
    by (simp_all add: init_state_def fromNameAndVersion_def new_Package_def)
  show ?thesis
    using fillCache_then_fromString_resolved [OF a, of init_state] b c by simp
qed

subsection \<open>The archive downloader\<close>

lemma download_loop_failed_step:
  assumes "failed_download_attempt (fetch E url (requests s))"
  shows "download_loop E url triesCount s =
           (if Suc triesCount < MAX_TRIES
            then download_loop E url (Suc triesCount) (s\<lparr> requests := Suc (requests s) \<rparr>)
            else ((None, Suc triesCount), s\<lparr> requests := Suc (requests s) \<rparr>))"
  using assms
  by (subst download_loop.simps)
     (auto simp: failed_download_attempt_def Let_def split: fetch_result.splits)

lemma download_loop_after_failures:
  assumes "\<forall>i<k. failed_download_attempt (fetch E url (requests s + i))"
    and "triesCount + k < MAX_TRIES"
  shows "download_loop E url triesCount s =
           download_loop E url (triesCount + k) (s\<lparr> requests := requests s + k \<rparr>)"
  using assms
proof (induction k arbitrary: triesCount s)
  case 0
  then show ?case by simp
next
  case (Suc k)
  have first: "failed_download_attempt (fetch E url (requests s))"
    using Suc.prems(1) by (metis add.right_neutral zero_less_Suc)
  have rest: "\<forall>i<k. failed_download_attempt
                 (fetch E url (requests (s\<lparr> requests := Suc (requests s) \<rparr>) + i))"
    using Suc.prems(1) by force
  have "download_loop E url triesCount s =
          download_loop E url (Suc triesCount) (s\<lparr> requests := Suc (requests s) \<rparr>)"
    using download_loop_failed_step [OF first] Suc.prems(2) by simp
  also have "\<dots> = download_loop E url (Suc triesCount + k)
                      (s\<lparr> requests := Suc (requests s) \<rparr>\<lparr> requests := Suc (requests s) + k \<rparr>)"
    using Suc.IH [OF rest, of "Suc triesCount"] Suc.prems(2) by simp
  finally show ?case by simp
qed

lemma download_loop_success:
  assumes "fetch E url (requests s) = FetchResponse response"
    and "buffer response = Some d"
  shows "download_loop E url triesCount s =
           ((Some d, triesCount), s\<lparr> requests := Suc (requests s) \<rparr>)"
  using assms by (subst download_loop.simps) (simp add: Let_def)

lemma download_loop_state:
  "heap (snd (download_loop E url triesCount s)) = heap s
   \<and> files (snd (download_loop E url triesCount s)) = files s"
proof (induction E url triesCount s rule: download_loop.induct)
  case (1 E url triesCount s)
  show ?case
    using "1.IH"
    by (subst (1 2) download_loop.simps)
       (auto simp: Let_def split: fetch_result.splits option.splits)
qed

lemma basename_final_segment:
  assumes "seg \<noteq> []" and "CHR ''/'' \<notin> set seg"
  shows "basename (pre @ ''/'' @ seg) = seg"
proof -
  have "dropWhile (\<lambda>c. c = CHR ''/'') (rev seg) = rev seg"
    using assms by (cases "rev seg") auto
  moreover have "takeWhile (\<lambda>c. c \<noteq> CHR ''/'') (rev seg @ CHR ''/'' # rev pre) = rev seg"
    using assms(2) by (simp add: takeWhile_append)
  moreover have "dropWhile (\<lambda>c. c = CHR ''/'') (rev seg @ CHR ''/'' # rev pre) =
                 dropWhile (\<lambda>c. c = CHR ''/'') (rev seg) @ CHR ''/'' # rev pre"
    using assms by (cases "rev seg") auto
  ultimately show ?thesis
    by (simp add: basename_def)
qed

text \<open>
  C8, as stated, fails in the error it names: with \<open>tarballURL\<close> unset, \<open>download\<close> throws
  the string \<open>not enough data for download tgz file\<close>, which is not the member
  \<open>Errors.NO_TARBALL\<close> (\<open>no tarball\<close>) of the code's error enumeration.
\<close>

theorem download_unset_tarball_not_NO_TARBALL:
  "download registry_404 0 left_pad_node =
     (Inl (Str ''not enough data for download tgz file''), left_pad_node)
   \<and> fst (download registry_404 0 left_pad_node) \<noteq> Inl (Str NO_TARBALL)"
proof -
  have n: "tarballURL (heap left_pad_node 0) = None"
    by (simp add: left_pad_node_def fromNameAndVersion_def new_Package_def init_state_def)
  then have "download registry_404 0 left_pad_node =
     (Inl (Str ''not enough data for download tgz file''), left_pad_node)"
    by (simp add: download_def truthy_def)
  then show ?thesis by (simp add: NO_TARBALL_def)
qed

text \<open>
  C8, amended. When \<open>tarballURL\<close> is unset, \<open>download\<close> throws the string
  \<open>not enough data for download tgz file\<close> and the state is the one before the call: no
  request was made and no file written. When \<open>tarballURL\<close> is set and \<open>download\<close>
  returns, \<open>tgzFileName\<close> is \<open>path.basename\<close> of the URL and exactly one file was written,
  at \<open>path.resolve(process.cwd(), tgzFileName)\<close>; that name is the URL's final path
  segment: what follows the last slash.
\<close>

theorem download_requires_tarball:
  "(tarballURL (heap s this) = None \<longrightarrow>
      download E this s = (Inl (Str ''not enough data for download tgz file''), s))
   \<and> (\<forall>url s'. tarballURL (heap s this) = Some url \<and> download E this s = (Inr (), s') \<longrightarrow>
        tgzFileName (heap s this) = Some (basename url)
        \<and> (\<exists>d. files s' = files s @ [(path_resolve E (cwd E) (basename url), d)]))
   \<and> (\<forall>pre seg. seg \<noteq> [] \<and> CHR ''/'' \<notin> set seg \<longrightarrow> basename (pre @ ''/'' @ seg) = seg)"
proof (intro conjI impI allI)
  assume "tarballURL (heap s this) = None"
  then show "download E this s = (Inl (Str ''not enough data for download tgz file''), s)"
    by (simp add: download_def truthy_def)
next
  fix url s'
  assume a: "tarballURL (heap s this) = Some url \<and> download E this s = (Inr (), s')"
  then have t: "truthy (Some url)"
    by (auto simp: download_def split: if_splits)
  with a show "tgzFileName (heap s this) = Some (basename url)"
    by (simp add: tgzFileName_def string_of_def)
  obtain r s1 where l: "download_loop E url 0 s = (r, s1)"
    by (cases "download_loop E url 0 s")
  have st: "heap s1 = heap s \<and> files s1 = files s"
    using download_loop_state [of E url 0 s] l by simp
  show "\<exists>d. files s' = files s @ [(path_resolve E (cwd E) (basename url), d)]"
    using a t l st
    by (auto simp: download_def tgzFileName_def string_of_def
        split: if_splits prod.splits option.splits)
next
  fix pre seg
  assume "seg \<noteq> [] \<and> CHR ''/'' \<notin> set seg"
  then show "basename (pre @ ''/'' @ seg) = seg"
    using basename_final_segment [of seg pre] by simp
qed

theorem download_requires_tarball_witness:
  "download registry_404 0 left_pad_node =
     (Inl (Str ''not enough data for download tgz file''), left_pad_node)
   \<and> (\<exists>d. files (snd (download registry_404 0 left_pad_with_tarball)) =
             files left_pad_with_tarball @ [(''/work/left-pad-1.3.0.tgz'', d)])
   \<and> basename left_pad_tgz = ''left-pad-1.3.0.tgz''"
proof -
  have n: "tarballURL (heap left_pad_node 0) = None"
    by (simp add: left_pad_node_def fromNameAndVersion_def new_Package_def init_state_def)
  have t: "tarballURL (heap left_pad_with_tarball 0) = Some left_pad_tgz"
    by (simp add: left_pad_with_tarball_def update_pkg_def)
  have b: "basename left_pad_tgz = ''left-pad-1.3.0.tgz''"
    by code_simp
  have r: "requests left_pad_with_tarball = 0"
    by (simp add: left_pad_with_tarball_def update_pkg_def left_pad_node_def
        fromNameAndVersion_def new_Package_def init_state_def)
  have l: "download_loop registry_404 left_pad_tgz 0 left_pad_with_tarball =
             ((Some ''Not found'', 0), left_pad_with_tarball\<lparr> requests := Suc 0 \<rparr>)"
    using download_loop_success [of registry_404 left_pad_tgz left_pad_with_tarball
        not_found_page "''Not found''" 0] r
    by (simp add: registry_404_def test_env_def not_found_page_def)
  have ne: "left_pad_tgz \<noteq> []"
    by (simp add: left_pad_tgz_def)
  have p: "path_resolve registry_404 (cwd registry_404) (basename left_pad_tgz) =
             ''/work/left-pad-1.3.0.tgz''"
    by (simp add: b registry_404_def test_env_def)
  have w: "writeFileSync registry_404
             (path_resolve registry_404 (cwd registry_404) ''left-pad-1.3.0.tgz'')
             ''Not found'' = None"
    by (simp add: registry_404_def test_env_def)
  have d: "fst (download registry_404 0 left_pad_with_tarball) = Inr ()"
    using t ne by (simp add: download_def tgzFileName_def truthy_def string_of_def b l w
        MAX_TRIES_def)
  have "download registry_404 0 left_pad_node =
     (Inl (Str ''not enough data for download tgz file''), left_pad_node)"
    using download_requires_tarball [of left_pad_node 0 registry_404] n by blast
  moreover have "\<exists>d. files (snd (download registry_404 0 left_pad_with_tarball)) =
             files left_pad_with_tarball @ [(''/work/left-pad-1.3.0.tgz'', d)]"
    using download_requires_tarball [of left_pad_with_tarball 0 registry_404] t d p
    by (metis prod.collapse)
  ultimately show ?thesis using b by blast
qed

text \<open>
  C9. \<open>download\<close> does not look at the status of the response: as soon as a \<open>fetch\<close> of
  the tarball URL resolves to a response whose body can be read (after fewer than ten
  rejected attempts), the body is handed to \<open>fs.writeFileSync\<close>, whatever the status is.
  When that write succeeds, the body is the file's contents and \<open>download\<close> returns; when
  it fails, \<open>download\<close> throws the write's error and no file is recorded. The witness
  is a 404 page, written as the archive; and the same page for a URL that ends in \<open>..\<close>,
  where the write fails with \<open>EISDIR\<close>.
\<close>

theorem download_ignores_status:
  assumes "tarballURL (heap s this) = Some url"
    and "basename url \<noteq> []"
    and "k < MAX_TRIES"
    and "\<forall>i<k. failed_download_attempt (fetch E url (requests s + i))"
    and "fetch E url (requests s + k) = FetchResponse response"
    and "buffer response = Some d"
  shows "(writeFileSync E (path_resolve E (cwd E) (basename url)) d = None \<longrightarrow>
            download E this s =
              (Inr (), s\<lparr> requests := requests s + Suc k,
                          files := files s @ [(path_resolve E (cwd E) (basename url), d)] \<rparr>))
       \<and> (\<forall>code. writeFileSync E (path_resolve E (cwd E) (basename url)) d = Some code \<longrightarrow>
            download E this s =
              (Inl (SystemError code), s\<lparr> requests := requests s + Suc k \<rparr>))"
proof -
  have u: "url \<noteq> []"
    using assms(2) by (auto simp: basename_def)
  have last: "fetch E url (requests (s\<lparr> requests := requests s + k \<rparr>)) = FetchResponse response"
    using assms(5) by simp
  have "download_loop E url 0 s =
          download_loop E url (0 + k) (s\<lparr> requests := requests s + k \<rparr>)"
    using download_loop_after_failures [OF assms(4), of 0] assms(3) by simp
  also have "\<dots> = ((Some d, k), s\<lparr> requests := requests s + Suc k \<rparr>)"
    using download_loop_success [OF last assms(6), of "0 + k"] by simp
  finally have loop: "download_loop E url 0 s =
      ((Some d, k), s\<lparr> requests := requests s + Suc k \<rparr>)" .
  show ?thesis
    using assms(1,2,3) u
    by (simp add: download_def tgzFileName_def truthy_def string_of_def loop)
qed

theorem download_ignores_status_witness:
  "download registry_404 0 left_pad_with_tarball =
     (Inr (), left_pad_with_tarball\<lparr> requests := 1,
                 files := [(''/work/left-pad-1.3.0.tgz'', ''Not found'')] \<rparr>)
   \<and> download registry_404 0 left_pad_with_dotdot =
     (Inl (SystemError ''EISDIR''), left_pad_with_dotdot\<lparr> requests := 1 \<rparr>)"
proof -
  have b: "basename left_pad_tgz = ''left-pad-1.3.0.tgz''" and b': "basename dotdot_url = ''..''"
    by code_simp+
  have t: "tarballURL (heap left_pad_with_tarball 0) = Some left_pad_tgz"
    and t': "tarballURL (heap left_pad_with_dotdot 0) = Some dotdot_url"
    by (simp_all add: left_pad_with_tarball_def left_pad_with_dotdot_def update_pkg_def)
  have r: "requests left_pad_with_tarball = 0" and f: "files left_pad_with_tarball = []"
    and r': "requests left_pad_with_dotdot = 0"
    by (simp_all add: left_pad_with_tarball_def left_pad_with_dotdot_def update_pkg_def
        left_pad_node_def fromNameAndVersion_def new_Package_def init_state_def)
  have "download registry_404 0 left_pad_with_tarball =
     (Inr (), left_pad_with_tarball\<lparr> requests := 1,
                 files := [(''/work/left-pad-1.3.0.tgz'', ''Not found'')] \<rparr>)"
    using download_ignores_status [of left_pad_with_tarball 0 left_pad_tgz 0 registry_404
        not_found_page "''Not found''"] t r f
    by (simp add: b registry_404_def test_env_def not_found_page_def MAX_TRIES_def)
  moreover have "download registry_404 0 left_pad_with_dotdot =
     (Inl (SystemError ''EISDIR''), left_pad_with_dotdot\<lparr> requests := 1 \<rparr>)"
    using download_ignores_status [of left_pad_with_dotdot 0 dotdot_url 0 registry_404
        not_found_page "''Not found''"] t' r'
    by (simp add: b' registry_404_def test_env_def not_found_page_def MAX_TRIES_def)
  ultimately show ?thesis by blast
qed

subsection \<open>Mutual dependencies\<close>

lemma coerce_nonempty:
  assumes "coerce r = Some v"
  shows "v \<noteq> []"
  using assms
  by (auto simp: coerce_def Let_def split: option.splits prod.splits if_splits)

lemma mutual_dependency_run:
  assumes distinct: "fullNameByNameAndVersion nA vA \<noteq> fullNameByNameAndVersion nB vB"
    and rA: "rA \<noteq> ''*''" "CHR ''<'' \<notin> set rA" "CHR ''-'' \<notin> set rA" "coerce rA = Some vA"
    and rB: "rB \<noteq> ''*''" "CHR ''<'' \<notin> set rB" "CHR ''-'' \<notin> set rB" "coerce rB = Some vB"
    and netA: "\<forall>k. fetch E (registry_url nA vA) k = FetchResponse respA" "ok respA"
      "json respA = JsonValue metaA" "api_dependencies metaA = Some [(nB, rB)]"
    and netB: "\<forall>k. fetch E (registry_url nB vB) k = FetchResponse respB" "ok respB"
      "json respB = JsonValue metaB" "api_dependencies metaB = Some [(nA, rA)]"
  shows "(case getDependencies E (Suc (Suc f)) 0 (snd (fromNameAndVersion nA vA init_state)) of
            Some (Inr resultA, s1) \<Rightarrow>
              resultA = [1] \<and> name (heap s1 1) = nB \<and> version (heap s1 1) = vB \<and>
              dependents (heap s1 1) = [0] \<and>
              isAncestorEqual (Suc (Suc f)) (heap s1) 1 0 = Some True \<and>
              (case getDependencies E (Suc (Suc f)) 1 s1 of
                 Some (Inr resultB, s2) \<Rightarrow>
                   resultB = [] \<and> dependencies (heap s2 0) = [1] \<and> dependencies (heap s2 1) = []
                   \<and> dependents (heap s2 1) = [0] \<and> dependents (heap s2 0) = []
                   \<and> \<not> error (heap s2 0) \<and> \<not> error (heap s2 1) \<and> requests s2 = 2
               | _ \<Rightarrow> False)
          | _ \<Rightarrow> False)"
proof -
  have vA: "vA \<noteq> []" and vB: "vB \<noteq> []"
    using rA(4) rB(4) by (auto dest: coerce_nonempty)
  have d: "nA @ CHR ''@'' # vA \<noteq> nB @ CHR ''@'' # vB"
    using distinct by (simp add: fullNameByNameAndVersion_def)
  show ?thesis
    using vA vB d rA rB netA netB
    by (simp add: getDependencies_def update_pkg_def fromNameAndVersion_def new_Package_def
        init_state_def fullName_def fullNameByNameAndVersion_def apiRequest_def truthy_def
        string_of_def js_value_of_def api_loop.simps [of _ _ 0] Let_def fromSemanticVersion_def
        isEqual_def isRoot_def addDependent_def MAX_TRIES_def)
qed

text \<open>
  C2. Two packages \<open>A\<close> and \<open>B\<close> with different full names, where the registry's
  metadata of \<open>A\<close> lists exactly \<open>B\<close> and that of \<open>B\<close> lists exactly \<open>A\<close>, each with a specifier
  that is coerced to the other's version. Starting from the empty caches, \<open>A\<close> is the
  node at address 0. Expanding \<open>A\<close> returns the single node \<open>B\<close> (address 1) and records
  \<open>A\<close> as a dependent of \<open>B\<close>, after which \<open>isAncestorEqual\<close> finds \<open>A\<close> among the ancestors
  of \<open>B\<close>. Expanding \<open>B\<close> then returns the empty list and throws nothing. At the end
  \<open>A.dependencies = [B]\<close> and \<open>B.dependencies = []\<close>, and no node is flagged as an error.
  Every recursion bound of at least 2 is enough for both expansions to return.
\<close>

theorem mutual_dependency_cycle_dropped:
  assumes "fullNameByNameAndVersion nA vA \<noteq> fullNameByNameAndVersion nB vB"
    and "rA \<noteq> ''*''" "CHR ''<'' \<notin> set rA" "CHR ''-'' \<notin> set rA" "coerce rA = Some vA"
    and "rB \<noteq> ''*''" "CHR ''<'' \<notin> set rB" "CHR ''-'' \<notin> set rB" "coerce rB = Some vB"
    and "\<forall>k. fetch E (registry_url nA vA) k = FetchResponse respA" "ok respA"
      "json respA = JsonValue metaA" "api_dependencies metaA = Some [(nB, rB)]"
    and "\<forall>k. fetch E (registry_url nB vB) k = FetchResponse respB" "ok respB"
      "json respB = JsonValue metaB" "api_dependencies metaB = Some [(nA, rA)]"
    and "2 \<le> fuel"
  shows "fst (fromNameAndVersion nA vA init_state) = 0
       \<and> (\<exists>s1 s2.
            getDependencies E fuel 0 (snd (fromNameAndVersion nA vA init_state))
              = Some (Inr [1], s1)
            \<and> name (heap s1 1) = nB \<and> version (heap s1 1) = vB
            \<and> dependents (heap s1 1) = [0]
            \<and> isAncestorEqual fuel (heap s1) 1 0 = Some True
            \<and> getDependencies E fuel 1 s1 = Some (Inr [], s2)
            \<and> dependencies (heap s2 0) = [1] \<and> dependencies (heap s2 1) = []
            \<and> \<not> error (heap s2 0) \<and> \<not> error (heap s2 1))"
proof -
  obtain f where fuel: "fuel = Suc (Suc f)"
    using assms(18) by (metis Suc_le_D numeral_2_eq_2 Suc_le_mono)
  have a: "fst (fromNameAndVersion nA vA init_state) = 0"
    by (simp add: fromNameAndVersion_def new_Package_def init_state_def)
  let ?s0 = "snd (fromNameAndVersion nA vA init_state)"
  note run = mutual_dependency_run [OF assms(1-17), of f]
  obtain s1 where g1: "getDependencies E (Suc (Suc f)) 0 ?s0 = Some (Inr [1], s1)"
  proof (cases "getDependencies E (Suc (Suc f)) 0 ?s0")
    case None
    with run show ?thesis by simp
  next
    case (Some x)
    obtain r s1 where x: "x = (r, s1)" by (cases x)
    show ?thesis
    proof (cases r)
      case (Inl e)
      with run Some x show ?thesis by simp
    next
      case (Inr resultA)
      with run Some x have "resultA = [1]" by simp
      with Some x Inr that show ?thesis by simp
    qed
  qed
  have r1: "name (heap s1 1) = nB \<and> version (heap s1 1) = vB \<and> dependents (heap s1 1) = [0]
            \<and> isAncestorEqual (Suc (Suc f)) (heap s1) 1 0 = Some True
            \<and> (case getDependencies E (Suc (Suc f)) 1 s1 of
                 Some (Inr resultB, s2) \<Rightarrow>
                   resultB = [] \<and> dependencies (heap s2 0) = [1] \<and> dependencies (heap s2 1) = []
                   \<and> dependents (heap s2 1) = [0] \<and> dependents (heap s2 0) = []
                   \<and> \<not> error (heap s2 0) \<and> \<not> error (heap s2 1) \<and> requests s2 = 2
               | _ \<Rightarrow> False)"
    using run unfolding g1 by (simp del: isAncestorEqual.simps)
  then have p1: "name (heap s1 1) = nB \<and> version (heap s1 1) = vB \<and> dependents (heap s1 1) = [0]
            \<and> isAncestorEqual (Suc (Suc f)) (heap s1) 1 0 = Some True"
    by blast
  from r1 have run2: "(case getDependencies E (Suc (Suc f)) 1 s1 of
                 Some (Inr resultB, s2) \<Rightarrow>
                   resultB = [] \<and> dependencies (heap s2 0) = [1] \<and> dependencies (heap s2 1) = []
                   \<and> dependents (heap s2 1) = [0] \<and> dependents (heap s2 0) = []
                   \<and> \<not> error (heap s2 0) \<and> \<not> error (heap s2 1) \<and> requests s2 = 2
               | _ \<Rightarrow> False)"
    by blast
  obtain s2 where g2: "getDependencies E (Suc (Suc f)) 1 s1 = Some (Inr [], s2)"
  proof (cases "getDependencies E (Suc (Suc f)) 1 s1")
    case None
    with run2 show ?thesis by simp
  next
    case (Some x)
    obtain r s2 where x: "x = (r, s2)" by (cases x)
    show ?thesis
    proof (cases r)
      case (Inl e)
      with run2 Some x show ?thesis by simp
    next
      case (Inr resultB)
      with run2 Some x have "resultB = []" by simp
      with Some x Inr that show ?thesis by simp
    qed
  qed
  have p2: "dependencies (heap s2 0) = [1] \<and> dependencies (heap s2 1) = []
            \<and> \<not> error (heap s2 0) \<and> \<not> error (heap s2 1)"
    using run2 unfolding g2 by simp
  show ?thesis
    unfolding fuel using a g1 p1 g2 p2 by blast
qed

theorem mutual_dependency_cycle_dropped_witness:
  "\<exists>s1 s2.
     getDependencies registry_A_B 2 0 (snd (fromNameAndVersion ''A'' ''1.0.0'' init_state))
       = Some (Inr [1], s1)
     \<and> name (heap s1 1) = ''B'' \<and> version (heap s1 1) = ''2.0.0''
     \<and> getDependencies registry_A_B 2 1 s1 = Some (Inr [], s2)
     \<and> dependencies (heap s2 0) = [1] \<and> dependencies (heap s2 1) = []"
proof -
  have cA: "coerce ''1.0.0'' = Some ''1.0.0''" and cB: "coerce ''^2.0.0'' = Some ''2.0.0''"
    by code_simp+
  have nA: "\<forall>k. fetch registry_A_B (registry_url ''A'' ''1.0.0'') k =
              FetchResponse (metadata_with_dependency ''B'' ''^2.0.0'')"
    and nB: "\<forall>k. fetch registry_A_B (registry_url ''B'' ''2.0.0'') k =
              FetchResponse (metadata_with_dependency ''A'' ''1.0.0'')"
    by (simp_all add: registry_A_B_def test_env_def registry_url_def)
  have okA: "ok (metadata_with_dependency ''B'' ''^2.0.0'')"
    and okB: "ok (metadata_with_dependency ''A'' ''1.0.0'')"
    by (simp_all add: ok_def metadata_with_dependency_def)
  have jA: "json (metadata_with_dependency ''B'' ''^2.0.0'') =
              JsonValue (APIResponse (Some [(''B'', ''^2.0.0'')]) None None)"
    and jB: "json (metadata_with_dependency ''A'' ''1.0.0'') =
              JsonValue (APIResponse (Some [(''A'', ''1.0.0'')]) None None)"
    by (simp_all add: metadata_with_dependency_def)
  have d: "fullNameByNameAndVersion ''A'' ''1.0.0'' \<noteq> fullNameByNameAndVersion ''B'' ''2.0.0''"
    by (simp add: fullNameByNameAndVersion_def)
  have "fst (fromNameAndVersion ''A'' ''1.0.0'' init_state) = 0
       \<and> (\<exists>s1 s2.
            getDependencies registry_A_B 2 0 (snd (fromNameAndVersion ''A'' ''1.0.0'' init_state))
              = Some (Inr [1], s1)
            \<and> name (heap s1 1) = ''B'' \<and> version (heap s1 1) = ''2.0.0''
            \<and> dependents (heap s1 1) = [0]
            \<and> isAncestorEqual 2 (heap s1) 1 0 = Some True
            \<and> getDependencies registry_A_B 2 1 s1 = Some (Inr [], s2)
            \<and> dependencies (heap s2 0) = [1] \<and> dependencies (heap s2 1) = []
            \<and> \<not> error (heap s2 0) \<and> \<not> error (heap s2 1))"
    by (rule mutual_dependency_cycle_dropped [OF d _ _ _ cA _ _ _ cB nA okA jA _ nB okB jB])
       simp_all
  then show ?thesis by blast
qed

end
